theory Spec2Isabelle
  imports Main "HOL-Library.Word"
begin

section \<open>Values, errors and the store\<close>

text \<open>
  The slices hold values of type \<^verbatim>\<open>TData | null\<close>. \<open>Null\<close> is JavaScript's
  \<^verbatim>\<open>null\<close>; an optional parameter (\<^verbatim>\<open>data?: TData | null\<close>) is an
  \<open>option\<close> of such a value, \<open>None\<close> standing for \<^verbatim>\<open>undefined\<close>.
  Reference equality of the source (\<^verbatim>\<open>===\<close>, \<^verbatim>\<open>Object.is\<close>) on these values
  is equality of the model: a value of the model stands for one object or primitive.
\<close>

datatype 'a nullable = Null | Value 'a

text \<open>
  \<open>TypeError\<close> is what the engine raises on writing to or deleting a property of
  \<^verbatim>\<open>null\<close>; \<open>ImmerError\<close> is the error immer raises when the prototype of a
  draft is set; \<open>Thrown\<close> is an exception raised by a caller-supplied callback.
\<close>

datatype error = TypeError | ImmerError | Thrown

text \<open>The nullish coalescing operator \<^verbatim>\<open>x ?? d\<close>.\<close>

definition nullish :: "'a nullable \<Rightarrow> 'a nullable \<Rightarrow> 'a nullable" where
  "nullish x d = (case x of Null \<Rightarrow> d | Value _ \<Rightarrow> x)"

text \<open>
  A store holds the current snapshot and, for observation, the snapshots delivered
  to its subscribers, oldest first.
\<close>

record 's store =
  state :: 's
  notified :: "'s list"

text \<open>
  What \<^verbatim>\<open>produce(recipe)\<close> makes of a snapshot: the recipe throws; or it leaves the
  draft untouched, and the result is the very snapshot it was given; or it modifies the
  draft, and the result is a new snapshot.
\<close>

datatype 's produced = Threw error | Unchanged | Changed 's

text \<open>
  The update primitive \<^verbatim>\<open>set(produce(recipe))\<close> belongs to the host libraries
  (zustand, immer), which the repository imports and does not contain. Its contract is
  that of section 4.1 of the specification: the recipe gives the new snapshot, which
  the subscribers are notified of; if the recipe throws, the update is abandoned and the
  previous snapshot stays. When the recipe leaves the draft untouched the libraries hand
  back the same snapshot object, \<^verbatim>\<open>set\<close> finds nothing replaced and nobody is
  notified. The result pairs the exception that reaches the caller (if any) with the
  store as it is after the call.
\<close>

definition set_state ::
  "('s \<Rightarrow> 's produced) \<Rightarrow> 's store \<Rightarrow> error option \<times> 's store" where
  "set_state recipe st =
     (case recipe (state st) of
        Threw e \<Rightarrow> (Some e, st)
      | Unchanged \<Rightarrow> (None, st)
      | Changed s' \<Rightarrow> (None, st\<lparr>state := s', notified := notified st @ [s']\<rparr>))"

text \<open>
  A recipe that only assigns fields of the draft: an assignment of the value the field
  already holds does not count as a modification, so the draft is modified exactly when
  the outcome differs from the snapshot. (A collection or an order handed to
  \<^verbatim>\<open>setData\<close> or \<^verbatim>\<open>setOrder\<close> is taken to be the object held when it is
  equal to it.)
\<close>

definition assigned :: "'s \<Rightarrow> 's \<Rightarrow> 's produced" where
  "assigned draft s' = (if s' = draft then Unchanged else Changed s')"

section \<open>Data slice family\<close>

text \<open>
  \<^verbatim>\<open>DataSliceState\<close>, \<^verbatim>\<open>RestorableDataSliceState\<close> and
  \<^verbatim>\<open>RefreshableDataSliceState\<close>: each interface extends the one before, and a store
  composed of several slices has the fields of all of them, which the extensible
  records express.
\<close>

record 'a DataSliceState =
  data :: "'a nullable"

record 'a RestorableDataSliceState = "'a DataSliceState" +
  initialData :: "'a nullable"

record 'a RefreshableDataSliceState = "'a RestorableDataSliceState" +
  freshData :: "'a nullable"

text \<open>
  \<^verbatim>\<open>updateData\<close> of the mutable data slice. The updater mutates a draft of the held
  value; the model has it return the resulting value (the one it was given when it
  changes nothing), or the exception it throws.
\<close>

definition updateData ::
  "('a \<Rightarrow> error + 'a) \<Rightarrow> ('a, 'm) DataSliceState_scheme store
     \<Rightarrow> error option \<times> ('a, 'm) DataSliceState_scheme store" where
  "updateData updater =
     set_state (\<lambda>draft.
       case data draft of
         Null \<Rightarrow> Unchanged
       | Value d \<Rightarrow>
           (case updater d of
              Inl e \<Rightarrow> Threw e
            | Inr d' \<Rightarrow> assigned draft (draft\<lparr>data := Value d'\<rparr>)))"

text \<open>\<^verbatim>\<open>reset\<close> of the restorable data slice.\<close>

definition reset ::
  "'a nullable option \<Rightarrow> ('a, 'm) RestorableDataSliceState_scheme store
     \<Rightarrow> error option \<times> ('a, 'm) RestorableDataSliceState_scheme store" where
  "reset arg =
     set_state (\<lambda>draft.
       let nextInitial = (case arg of Some v \<Rightarrow> v | None \<Rightarrow> initialData draft)
       in assigned draft (draft\<lparr>initialData := nextInitial, data := nextInitial\<rparr>))"

text \<open>
  \<^verbatim>\<open>refresh\<close> of the refreshable data slice: one \<^verbatim>\<open>set\<close> for
  \<^verbatim>\<open>freshData\<close>, then \<^verbatim>\<open>get().reset(data ?? null)\<close> on the store as it is then.
\<close>

definition refresh ::
  "'a nullable \<Rightarrow> ('a, 'm) RefreshableDataSliceState_scheme store
     \<Rightarrow> error option \<times> ('a, 'm) RefreshableDataSliceState_scheme store" where
  "refresh d st =
     (case set_state (\<lambda>draft. assigned draft (draft\<lparr>freshData := d\<rparr>)) st of
        (Some e, st1) \<Rightarrow> (Some e, st1)
      | (None, st1) \<Rightarrow> reset (Some (nullish d Null)) st1)"

section \<open>Identifiers\<close>

text \<open>
  \<^verbatim>\<open>TId extends string | number | symbol\<close>. The numbers of the model are NaN and the
  integers from \<open>-2^53\<close> to \<open>2^53 - 1\<close>, each of which is a number of the engine
  (the two zeros are one identifier: no operation below tells them apart). Equality of the
  model is the engine's SameValueZero, which \<^verbatim>\<open>includes\<close> uses.
\<close>

datatype ident = StrId string | NumId "54 word" | NaNId | SymId nat

text \<open>
  Strict equality, which \<^verbatim>\<open>!==\<close> and \<^verbatim>\<open>indexOf\<close> use: NaN is not equal to
  itself.
\<close>

definition strict_equal :: "ident \<Rightarrow> ident \<Rightarrow> bool" where
  "strict_equal a b \<longleftrightarrow> a = b \<and> a \<noteq> NaNId"

text \<open>
  A property of an object is named by a string or by a symbol; a number used as a
  property name is converted to its decimal numeral, and NaN to \<^verbatim>\<open>"NaN"\<close>.
\<close>

datatype pkey = Name string | Symbol nat

function decimal_nat :: "nat \<Rightarrow> string" where
  "decimal_nat n =
     (if n < 10 then [''0123456789'' ! n]
      else decimal_nat (n div 10) @ [''0123456789'' ! (n mod 10)])"
  by pat_completeness auto
termination
  by (relation "measure (\<lambda>n. n)") auto

declare decimal_nat.simps [simp del]

definition decimal :: "int \<Rightarrow> string" where
  "decimal n = (if n < 0 then CHR ''-'' # decimal_nat (nat (- n)) else decimal_nat (nat n))"

fun property_key :: "ident \<Rightarrow> pkey" where
  "property_key (StrId s) = Name s"
| "property_key (NumId n) = Name (decimal (sint n))"
| "property_key NaNId = Name ''NaN''"
| "property_key (SymId i) = Symbol i"

section \<open>List slice family\<close>

text \<open>
  An item is a primitive or an object; \<open>Object\<close> covers what can be a prototype
  (objects, functions and \<^verbatim>\<open>null\<close>), \<open>Primitive\<close> everything else. Items are
  other than the functions that \<^verbatim>\<open>Object.prototype\<close> provides.
\<close>

datatype 'v item = Primitive 'v | Object 'v

text \<open>
  The keyed collection \<^verbatim>\<open>Record<TId, TData>\<close> is a plain object: a map from
  property names to items, for its own properties. The list slice's state is the data
  slice's state at that type (\<^verbatim>\<open>ListSliceState\<close> extends
  \<^verbatim>\<open>DataSliceState<Record<TId, TData>>\<close>), so its \<^verbatim>\<open>data\<close> can be
  \<^verbatim>\<open>null\<close>. The mutable list slice adds the two tracking arrays.
\<close>

record 'v MutableListSliceState = "(pkey \<Rightarrow> 'v item option) DataSliceState" +
  added :: "ident list"
  deleted :: "ident list"

text \<open>\<^verbatim>\<open>setData\<close> of the base list slice.\<close>

definition setData ::
  "'d nullable \<Rightarrow> ('d, 'm) DataSliceState_scheme store
     \<Rightarrow> error option \<times> ('d, 'm) DataSliceState_scheme store" where
  "setData d = set_state (\<lambda>draft. assigned draft (draft\<lparr>data := d\<rparr>))"

text \<open>
  The assignment \<^verbatim>\<open>draft.data[id] = element\<close> on the draft of a plain object. The
  name \<^verbatim>\<open>__proto__\<close> is an inherited accessor: the assignment calls its setter,
  which sets the prototype when the value can be one, and immer refuses that on a
  draft, and which does nothing for any other value. Every other name becomes, or
  stays, an own property.
\<close>

definition assign_property ::
  "(pkey \<Rightarrow> 'v item option) \<Rightarrow> pkey \<Rightarrow> 'v item \<Rightarrow> error + (pkey \<Rightarrow> 'v item option)" where
  "assign_property m k element =
     (if k = Name ''__proto__''
      then (case element of Object _ \<Rightarrow> Inl ImmerError | Primitive _ \<Rightarrow> Inr m)
      else Inr (m(k \<mapsto> element)))"

text \<open>
  \<^verbatim>\<open>add\<close> of the mutable list slice. The first statement of the recipe assigns a
  property of \<^verbatim>\<open>draft.data\<close>, which throws when that is \<^verbatim>\<open>null\<close>. The last
  one assigns a new array to \<^verbatim>\<open>draft.deleted\<close>, so the draft is always modified.
\<close>

definition add ::
  "ident \<Rightarrow> 'v item \<Rightarrow> ('v, 'm) MutableListSliceState_scheme store
     \<Rightarrow> error option \<times> ('v, 'm) MutableListSliceState_scheme store" where
  "add ident element =
     set_state (\<lambda>draft.
       case data draft of
         Null \<Rightarrow> Threw TypeError
       | Value m \<Rightarrow>
           (case assign_property m (property_key ident) element of
              Inl e \<Rightarrow> Threw e
            | Inr m' \<Rightarrow>
                (let draft1 = draft\<lparr>data := Value m'\<rparr>;
                     addedArray = added draft1;
                     draft2 = (if ident \<notin> set addedArray
                               then draft1\<lparr>added := addedArray @ [ident]\<rparr> else draft1);
                     deletedArray = deleted draft2
                 in Changed (draft2\<lparr>deleted :=
                      filter (\<lambda>deletedId. \<not> strict_equal deletedId ident) deletedArray\<rparr>))))"

text \<open>
  \<^verbatim>\<open>remove\<close> of the mutable list slice. Deleting a property of \<^verbatim>\<open>null\<close>
  throws as well; deleting from an object removes an own property of that name, if
  there is one.
\<close>

definition remove_id ::
  "ident \<Rightarrow> ('v, 'm) MutableListSliceState_scheme store
     \<Rightarrow> error option \<times> ('v, 'm) MutableListSliceState_scheme store" where
  "remove_id ident =
     set_state (\<lambda>draft.
       case data draft of
         Null \<Rightarrow> Threw TypeError
       | Value m \<Rightarrow>
           (let draft1 = draft\<lparr>data := Value (m(property_key ident := None))\<rparr>;
                deletedArray = deleted draft1;
                draft2 = (if ident \<notin> set deletedArray
                          then draft1\<lparr>deleted := deletedArray @ [ident]\<rparr> else draft1);
                addedArray = added draft2
            in Changed (draft2\<lparr>added :=
                 filter (\<lambda>addedId. \<not> strict_equal addedId ident) addedArray\<rparr>)))"

text \<open>
  A sequence of calls. An exception leaves the store as it was, and the caller goes on
  with the next call.
\<close>

datatype 'v call = Add ident "'v item" | Remove ident

fun call_ident :: "'v call \<Rightarrow> ident" where
  "call_ident (Add ident element) = ident"
| "call_ident (Remove ident) = ident"

fun perform ::
  "'v call \<Rightarrow> ('v, 'm) MutableListSliceState_scheme store
     \<Rightarrow> ('v, 'm) MutableListSliceState_scheme store" where
  "perform (Add ident element) st = snd (add ident element st)"
| "perform (Remove ident) st = snd (remove_id ident st)"

fun run ::
  "'v call list \<Rightarrow> ('v, 'm) MutableListSliceState_scheme store
     \<Rightarrow> ('v, 'm) MutableListSliceState_scheme store" where
  "run [] st = st"
| "run (c # cs) st = run cs (perform c st)"

section \<open>Reorderable list slice\<close>

record ReorderableListSliceState =
  order :: "ident list"

text \<open>\<^verbatim>\<open>Math.max(min, Math.min(max, n))\<close> on integers.\<close>

definition clamp :: "int \<Rightarrow> int \<Rightarrow> int \<Rightarrow> int" where
  "clamp n mn mx = max mn (min mx n)"

text \<open>
  \<^verbatim>\<open>Array.prototype.indexOf\<close>: the first index holding a value strictly equal to
  the one sought, or \<open>-1\<close>.
\<close>

fun indexOf :: "ident list \<Rightarrow> ident \<Rightarrow> int" where
  "indexOf [] x = - 1"
| "indexOf (y # ys) x =
     (if strict_equal y x then 0
      else (let r = indexOf ys x in if r = - 1 then - 1 else r + 1))"

text \<open>
  \<^verbatim>\<open>Array.prototype.splice(start, deleteCount, ...items)\<close>: a negative start counts
  from the end, a start past the end is the length, and the delete count is cut to what
  is there. The result is the removed elements and the array as it is afterwards.
\<close>

definition splice_arr :: "int \<Rightarrow> int \<Rightarrow> 'a list \<Rightarrow> 'a list \<Rightarrow> 'a list \<times> 'a list" where
  "splice_arr start deleteCount items xs =
     (let len = int (length xs);
          s = (if start < 0 then max (len + start) 0 else min start len);
          dc = min (max deleteCount 0) (len - s)
      in (take (nat dc) (drop (nat s) xs),
          take (nat s) xs @ items @ drop (nat (s + dc)) xs))"

text \<open>
  The five move operations. Each removes one element with \<^verbatim>\<open>splice(i, 1)[0]\<close> at an
  index that \<^verbatim>\<open>indexOf\<close> returned, so the removed array has one element; on an empty
  one the element would be \<^verbatim>\<open>undefined\<close>, which the model leaves out. A recipe that
  returns at its guard leaves the draft untouched; one that splices modifies it, also
  when the element ends up where it was.
\<close>

definition setOrder ::
  "ident list \<Rightarrow> 'm ReorderableListSliceState_scheme store
     \<Rightarrow> error option \<times> 'm ReorderableListSliceState_scheme store" where
  "setOrder new_order = set_state (\<lambda>draft. assigned draft (draft\<lparr>order := new_order\<rparr>))"

definition move ::
  "ident \<Rightarrow> int \<Rightarrow> 'm ReorderableListSliceState_scheme store
     \<Rightarrow> error option \<times> 'm ReorderableListSliceState_scheme store" where
  "move ident newIndex =
     set_state (\<lambda>draft.
       let orderArray = order draft;
           currentIndex = indexOf orderArray ident
       in if currentIndex = - 1 then Unchanged
          else
            (let bounded = clamp newIndex 0 (int (length orderArray) - 1);
                 (removed, orderArray1) = splice_arr currentIndex 1 [] orderArray
             in case removed of
                  [] \<Rightarrow> Changed (draft\<lparr>order := orderArray1\<rparr>)
                | item # _ \<Rightarrow>
                    Changed (draft\<lparr>order := snd (splice_arr bounded 0 [item] orderArray1)\<rparr>)))"

definition moveToTop ::
  "ident \<Rightarrow> 'm ReorderableListSliceState_scheme store
     \<Rightarrow> error option \<times> 'm ReorderableListSliceState_scheme store" where
  "moveToTop ident =
     set_state (\<lambda>draft.
       let orderArray = order draft;
           idx = indexOf orderArray ident
       in if idx \<le> 0 then Unchanged
          else
            (let (removed, orderArray1) = splice_arr idx 1 [] orderArray
             in case removed of
                  [] \<Rightarrow> Changed (draft\<lparr>order := orderArray1\<rparr>)
                | item # _ \<Rightarrow> Changed (draft\<lparr>order := item # orderArray1\<rparr>)))"

definition moveToBottom ::
  "ident \<Rightarrow> 'm ReorderableListSliceState_scheme store
     \<Rightarrow> error option \<times> 'm ReorderableListSliceState_scheme store" where
  "moveToBottom ident =
     set_state (\<lambda>draft.
       let orderArray = order draft;
           idx = indexOf orderArray ident
       in if idx = - 1 \<or> idx = int (length orderArray) - 1 then Unchanged
          else
            (let (removed, orderArray1) = splice_arr idx 1 [] orderArray
             in case removed of
                  [] \<Rightarrow> Changed (draft\<lparr>order := orderArray1\<rparr>)
                | item # _ \<Rightarrow> Changed (draft\<lparr>order := orderArray1 @ [item]\<rparr>)))"

definition moveUp ::
  "ident \<Rightarrow> 'm ReorderableListSliceState_scheme store
     \<Rightarrow> error option \<times> 'm ReorderableListSliceState_scheme store" where
  "moveUp ident =
     set_state (\<lambda>draft.
       let orderArray = order draft;
           idx = indexOf orderArray ident
       in if idx \<le> 0 then Unchanged
          else
            (let (removed, orderArray1) = splice_arr idx 1 [] orderArray
             in case removed of
                  [] \<Rightarrow> Changed (draft\<lparr>order := orderArray1\<rparr>)
                | item # _ \<Rightarrow>
                    Changed (draft\<lparr>order := snd (splice_arr (idx - 1) 0 [item] orderArray1)\<rparr>)))"

definition moveDown ::
  "ident \<Rightarrow> 'm ReorderableListSliceState_scheme store
     \<Rightarrow> error option \<times> 'm ReorderableListSliceState_scheme store" where
  "moveDown ident =
     set_state (\<lambda>draft.
       let orderArray = order draft;
           idx = indexOf orderArray ident
       in if idx = - 1 \<or> idx = int (length orderArray) - 1 then Unchanged
          else
            (let (removed, orderArray1) = splice_arr idx 1 [] orderArray
             in case removed of
                  [] \<Rightarrow> Changed (draft\<lparr>order := orderArray1\<rparr>)
                | item # _ \<Rightarrow>
                    Changed (draft\<lparr>order := snd (splice_arr (idx + 1) 0 [item] orderArray1)\<rparr>)))"

section \<open>Example stores\<close>

text \<open>Concrete stores on which the operations are evaluated.\<close>

definition null_data_store :: "nat RefreshableDataSliceState store" where
  "null_data_store =
     \<lparr>state = \<lparr>data = Null, initialData = Null, freshData = Null\<rparr>, notified = []\<rparr>"

definition empty_list_store :: "string MutableListSliceState store" where
  "empty_list_store =
     \<lparr>state = \<lparr>data = Value Map.empty, added = [], deleted = []\<rparr>, notified = []\<rparr>"

definition xyz_store :: "ReorderableListSliceState store" where
  "xyz_store =
     \<lparr>state = \<lparr>order = [StrId ''x'', StrId ''y'', StrId ''z'']\<rparr>, notified = []\<rparr>"

definition nan_x_store :: "ReorderableListSliceState store" where
  "nan_x_store = \<lparr>state = \<lparr>order = [NaNId, StrId ''x'']\<rparr>, notified = []\<rparr>"

section \<open>The store primitive\<close>

lemma set_state_Threw:
  "recipe (state st) = Threw e \<Longrightarrow> set_state recipe st = (Some e, st)"
  by (simp add: set_state_def)

lemma set_state_Unchanged:
  "recipe (state st) = Unchanged \<Longrightarrow> set_state recipe st = (None, st)"
  by (simp add: set_state_def)

lemma set_state_Changed:
  "recipe (state st) = Changed s' \<Longrightarrow>
     set_state recipe st = (None, st\<lparr>state := s', notified := notified st @ [s']\<rparr>)"
  by (simp add: set_state_def)

lemma set_state_assigned:
  "set_state (\<lambda>draft. assigned draft (f draft)) st =
     (None, if f (state st) = state st then st
            else st\<lparr>state := f (state st), notified := notified st @ [f (state st)]\<rparr>)"
  by (simp add: set_state_def assigned_def)

lemma state_set_state_assigned:
  "state (snd (set_state (\<lambda>draft. assigned draft (f draft)) st)) = f (state st)"
  by (simp add: set_state_assigned)

lemma fst_set_state_assigned:
  "fst (set_state (\<lambda>draft. assigned draft (f draft)) st) = None"
  by (simp add: set_state_assigned)

lemma nullish_Null [simp]: "nullish d Null = d"
  by (cases d) (simp_all add: nullish_def)

section \<open>Properties of the data slices\<close>

lemma freshData_update_same:
  "(s\<lparr>freshData := v\<rparr> = s) = (freshData s = v)"
  by (cases s) auto

lemma baseline_update_same:
  "(s\<lparr>initialData := v, data := v\<rparr> = s) = (initialData s = v \<and> data s = v)"
  by (cases s) auto

text \<open>
  C1, as the code has it. For every value \<open>v\<close> (\<open>Null\<close> included),
  \<^verbatim>\<open>refresh(v)\<close> raises nothing and afterwards \<^verbatim>\<open>freshData\<close>,
  \<^verbatim>\<open>initialData\<close> and \<^verbatim>\<open>data\<close> all equal \<open>v\<close>. The update is not one
  transition but two successive calls of \<^verbatim>\<open>set\<close>, each of which notifies the
  subscribers if it changes the state: the first when \<^verbatim>\<open>freshData\<close> was not
  \<open>v\<close>, with a snapshot in which only \<^verbatim>\<open>freshData\<close> has changed; the second
  when \<^verbatim>\<open>initialData\<close> or \<^verbatim>\<open>data\<close> was not \<open>v\<close>, with the snapshot in
  which all three fields are \<open>v\<close>.
\<close>

theorem refresh_two_transitions:
  "fst (refresh v st) = None
   \<and> state (snd (refresh v st)) = (state st)\<lparr>freshData := v, initialData := v, data := v\<rparr>
   \<and> freshData (state (snd (refresh v st))) = v
   \<and> initialData (state (snd (refresh v st))) = v
   \<and> data (state (snd (refresh v st))) = v
   \<and> notified (snd (refresh v st)) =
       notified st
       @ (if freshData (state st) = v then [] else [(state st)\<lparr>freshData := v\<rparr>])
       @ (if initialData (state st) = v \<and> data (state st) = v then []
          else [(state st)\<lparr>freshData := v, initialData := v, data := v\<rparr>])"
  by (simp add: refresh_def reset_def Let_def set_state_assigned
        freshData_update_same baseline_update_same)

text \<open>
  The claim of a single transition fails: from the store whose three fields are
  \<open>Null\<close>, \<^verbatim>\<open>refresh(1)\<close> delivers two snapshots, and in the first one
  \<^verbatim>\<open>data\<close> and \<^verbatim>\<open>initialData\<close> are still \<open>Null\<close>.
\<close>

theorem refresh_single_notification_counterexample:
  "notified (snd (refresh (Value 1) null_data_store))
     = [\<lparr>data = Null, initialData = Null, freshData = Value 1\<rparr>,
        \<lparr>data = Value 1, initialData = Value 1, freshData = Value 1\<rparr>]
   \<and> length (notified (snd (refresh (Value 1) null_data_store)))
       - length (notified null_data_store) \<noteq> 1"
  by (simp add: refresh_def reset_def Let_def set_state_assigned null_data_store_def)

text \<open>
  C3. In the restorable data slice, \<^verbatim>\<open>reset()\<close> without an argument sets the current
  value to the stored baseline and leaves the baseline as it is; \<^verbatim>\<open>reset(v)\<close> sets
  both the baseline and the current value to \<open>v\<close>; after either call the current value
  and the baseline are equal. Neither call raises anything.
\<close>

theorem reset_modes:
  "state (snd (reset None st)) = (state st)\<lparr>data := initialData (state st)\<rparr>
   \<and> initialData (state (snd (reset None st))) = initialData (state st)
   \<and> data (state (snd (reset None st))) = initialData (state st)
   \<and> initialData (state (snd (reset (Some v) st))) = v
   \<and> data (state (snd (reset (Some v) st))) = v
   \<and> state (snd (reset (Some v) st)) = (state st)\<lparr>initialData := v, data := v\<rparr>
   \<and> data (state (snd (reset arg st))) = initialData (state (snd (reset arg st)))
   \<and> fst (reset arg st) = None"
  by (simp add: reset_def Let_def state_set_state_assigned fst_set_state_assigned)

text \<open>
  C4. When the held value is \<open>Null\<close>, \<^verbatim>\<open>updateData(m)\<close> raises nothing and leaves
  the slice state as it was, whatever the mutator \<open>m\<close> is: \<open>m\<close> is not called, so
  even a mutator that always throws has no effect. The store as a whole is as before:
  nobody is notified.
\<close>

theorem updateData_null_noop:
  "data (state st) = Null \<Longrightarrow>
     fst (updateData updater st) = None \<and> state (snd (updateData updater st)) = state st
     \<and> updateData updater st = (None, st)"
  by (simp add: updateData_def set_state_def)

theorem updateData_null_noop_witness:
  "data (state null_data_store) = Null
   \<and> fst (updateData (\<lambda>_. Inl Thrown) null_data_store) = None
   \<and> state (snd (updateData (\<lambda>_. Inl Thrown) null_data_store)) = state null_data_store
   \<and> updateData (\<lambda>_. Inl Thrown) null_data_store = (None, null_data_store)"
  using updateData_null_noop [of null_data_store "\<lambda>_. Inl Thrown"]
  by (simp add: null_data_store_def)

section \<open>Properties of the mutable list slice\<close>

lemma add_Null:
  "data (state st) = Null \<Longrightarrow> add ident element st = (Some TypeError, st)"
  by (simp add: add_def set_state_def)

lemma remove_id_Null:
  "data (state st) = Null \<Longrightarrow> remove_id ident st = (Some TypeError, st)"
  by (simp add: remove_id_def set_state_def)

lemma add_throws:
  "data (state st) = Value m \<Longrightarrow>
   assign_property m (property_key ident) element = Inl e \<Longrightarrow>
   add ident element st = (Some e, st)"
  by (simp add: add_def set_state_def)

lemma add_Value:
  "data (state st) = Value m \<Longrightarrow>
   assign_property m (property_key ident) element = Inr m' \<Longrightarrow>
   fst (add ident element st) = None \<and>
   data (state (snd (add ident element st))) = Value m' \<and>
   added (state (snd (add ident element st))) =
     (if ident \<in> set (added (state st)) then added (state st)
      else added (state st) @ [ident]) \<and>
   deleted (state (snd (add ident element st))) =
     filter (\<lambda>x. \<not> strict_equal x ident) (deleted (state st))"
  by (simp add: add_def set_state_def Let_def)

lemma remove_id_Value:
  "data (state st) = Value m \<Longrightarrow>
   fst (remove_id ident st) = None \<and>
   data (state (snd (remove_id ident st))) = Value (m(property_key ident := None)) \<and>
   deleted (state (snd (remove_id ident st))) =
     (if ident \<in> set (deleted (state st)) then deleted (state st)
      else deleted (state st) @ [ident]) \<and>
   added (state (snd (remove_id ident st))) =
     filter (\<lambda>x. \<not> strict_equal x ident) (added (state st))"
  by (simp add: remove_id_def set_state_def Let_def)

text \<open>The name \<^verbatim>\<open>__proto__\<close>: an object is refused, a primitive is not stored.\<close>

lemma add_proto_object:
  "data (state st) = Value m \<Longrightarrow>
     add (StrId ''__proto__'') (Object v) st = (Some ImmerError, st)"
  by (simp add: add_throws assign_property_def)

lemma add_proto_primitive:
  "data (state st) = Value m \<Longrightarrow>
     fst (add (StrId ''__proto__'') (Primitive v) st) = None
     \<and> data (state (snd (add (StrId ''__proto__'') (Primitive v) st))) = Value m"
  using add_Value [of st m "StrId ''__proto__''" "Primitive v" m]
  by (simp add: assign_property_def)

text \<open>What one call does to the two tracking arrays.\<close>

lemma perform_cases:
  "state (perform c st) = state st
   \<or> (added (state (perform c st)) =
          (if call_ident c \<in> set (added (state st)) then added (state st)
           else added (state st) @ [call_ident c])
        \<and> deleted (state (perform c st)) =
            filter (\<lambda>x. \<not> strict_equal x (call_ident c)) (deleted (state st)))
   \<or> (deleted (state (perform c st)) =
          (if call_ident c \<in> set (deleted (state st)) then deleted (state st)
           else deleted (state st) @ [call_ident c])
        \<and> added (state (perform c st)) =
            filter (\<lambda>x. \<not> strict_equal x (call_ident c)) (added (state st)))"
proof (cases "data (state st)")
  case Null
  then show ?thesis by (cases c) (simp_all add: add_Null remove_id_Null)
next
  case (Value m)
  show ?thesis
  proof (cases c)
    case (Add ident element)
    show ?thesis
    proof (cases "assign_property m (property_key ident) element")
      case (Inl e)
      then show ?thesis using Add add_throws [OF Value, of ident element e] by simp
    next
      case (Inr m')
      then show ?thesis using Add add_Value [OF Value, of ident element m'] by simp
    qed
  next
    case (Remove ident)
    then show ?thesis using remove_id_Value [OF Value, of ident] by simp
  qed
qed



text \<open>
  For an identifier other than NaN the filter with \<^verbatim>\<open>!==\<close> removes what
  \<^verbatim>\<open>includes\<close> finds, and a call keeps the two arrays disjoint.
\<close>

lemma strict_equal_iff: "ident \<noteq> NaNId \<Longrightarrow> strict_equal x ident \<longleftrightarrow> x = ident"
  by (auto simp: strict_equal_def)

lemma perform_disjoint:
  assumes "call_ident c \<noteq> NaNId"
    and "set (added (state st)) \<inter> set (deleted (state st)) = {}"
  shows "set (added (state (perform c st))) \<inter> set (deleted (state (perform c st))) = {}"
  using perform_cases [of c st] assms
  by (auto simp: strict_equal_iff split: if_splits)

lemma run_disjoint:
  "\<forall>c \<in> set cs. call_ident c \<noteq> NaNId \<Longrightarrow>
   set (added (state st)) \<inter> set (deleted (state st)) = {} \<Longrightarrow>
   set (added (state (run cs st))) \<inter> set (deleted (state (run cs st))) = {}"
  by (induction cs arbitrary: st) (simp_all add: perform_disjoint)

text \<open>
  C2 fails on the code. The claim, and the integration test of the slice's README
  (\<^verbatim>\<open>expect(state.deleted).toHaveLength(0)\<close> after \<^verbatim>\<open>add("1", item)\<close> and
  \<^verbatim>\<open>remove("1")\<close>), say that the pair leaves both tracking sequences as they were.
  On the test's input the collection loses the entry and "added" is empty again, but
  \<^verbatim>\<open>remove\<close> records the identifier: "deleted", empty before, is \<open>["1"]\<close> after.
\<close>

theorem add_then_remove_keeps_deletion:
  "added (state empty_list_store) = [] \<and> deleted (state empty_list_store) = []
   \<and> fst (add (StrId ''1'') (Object ''Test'') empty_list_store) = None
   \<and> added (state (snd (add (StrId ''1'') (Object ''Test'') empty_list_store))) = [StrId ''1'']
   \<and> deleted (state (snd (add (StrId ''1'') (Object ''Test'') empty_list_store))) = []
   \<and> fst (remove_id (StrId ''1'')
        (snd (add (StrId ''1'') (Object ''Test'') empty_list_store))) = None
   \<and> data (state (snd (remove_id (StrId ''1'')
        (snd (add (StrId ''1'') (Object ''Test'') empty_list_store))))) = Value Map.empty
   \<and> added (state (snd (remove_id (StrId ''1'')
        (snd (add (StrId ''1'') (Object ''Test'') empty_list_store))))) = []
   \<and> deleted (state (snd (remove_id (StrId ''1'')
        (snd (add (StrId ''1'') (Object ''Test'') empty_list_store))))) = [StrId ''1'']
   \<and> deleted (state (snd (remove_id (StrId ''1'')
        (snd (add (StrId ''1'') (Object ''Test'') empty_list_store)))))
       \<noteq> deleted (state empty_list_store)"
  by (simp add: empty_list_store_def add_def remove_id_def set_state_def
        assign_property_def strict_equal_def Let_def)

text \<open>
  C5 fails on the code. The claim, and the README's "Items can't be in both added and
  deleted arrays", hold for every identifier but NaN: \<^verbatim>\<open>includes\<close> finds NaN, so it is
  appended once, but the filter compares with \<^verbatim>\<open>!==\<close>, which never finds NaN, so
  it is never taken out of the other array. From the empty collection with empty tracking
  arrays, \<^verbatim>\<open>add(NaN, item)\<close> then \<^verbatim>\<open>remove(NaN)\<close> leaves NaN in both.
\<close>

theorem nan_in_added_and_deleted:
  "added (state empty_list_store) = [] \<and> deleted (state empty_list_store) = []
   \<and> added (state (run [Add NaNId (Primitive ''n''), Remove NaNId] empty_list_store)) = [NaNId]
   \<and> deleted (state (run [Add NaNId (Primitive ''n''), Remove NaNId] empty_list_store)) = [NaNId]
   \<and> set (added (state (run [Add NaNId (Primitive ''n''), Remove NaNId] empty_list_store)))
       \<inter> set (deleted (state (run [Add NaNId (Primitive ''n''), Remove NaNId] empty_list_store)))
       = {NaNId}"
  by (simp add: empty_list_store_def add_def remove_id_def set_state_def
        assign_property_def strict_equal_def Let_def)

text \<open>
  C9. When the collection is \<^verbatim>\<open>null\<close>, which \<^verbatim>\<open>setData(null)\<close> of the base
  list slice brings about, \<^verbatim>\<open>add(id, item)\<close> and \<^verbatim>\<open>remove(id)\<close> each throw a
  TypeError instead of doing nothing silently, and the store is left as it was.
\<close>

theorem add_remove_null_collection:
  "data (state (snd (setData Null st0))) = Null
   \<and> (data (state st) = Null \<longrightarrow>
        add ident element st = (Some TypeError, st)
        \<and> remove_id ident st = (Some TypeError, st))"
  by (simp add: setData_def state_set_state_assigned add_Null remove_id_Null)

theorem add_remove_null_collection_witness:
  "data (state (snd (setData Null empty_list_store))) = Null
   \<and> add (StrId ''a'') (Object ''item'') (snd (setData Null empty_list_store))
       = (Some TypeError, snd (setData Null empty_list_store))
   \<and> remove_id (StrId ''a'') (snd (setData Null empty_list_store))
       = (Some TypeError, snd (setData Null empty_list_store))"
  using add_remove_null_collection
    [of empty_list_store "snd (setData Null empty_list_store)" "StrId ''a''" "Object ''item''"]
  by (simp add: setData_def state_set_state_assigned)



section \<open>Properties of the reorderable list slice\<close>

subsection \<open>Array primitives\<close>

lemma indexOf_notin: "x \<notin> set xs \<Longrightarrow> indexOf xs x = - 1"
  by (induction xs) (auto simp: Let_def strict_equal_def)

lemma indexOf_NaN: "indexOf xs NaNId = - 1"
  by (induction xs) (auto simp: Let_def strict_equal_def)

lemma indexOf_first:
  "x \<noteq> NaNId \<Longrightarrow> x \<notin> set ys \<Longrightarrow> indexOf (ys @ x # zs) x = int (length ys)"
  by (induction ys) (auto simp: Let_def strict_equal_def)

lemma indexOf_not_found:
  "x \<notin> set xs \<or> x = NaNId \<Longrightarrow> indexOf xs x = - 1"
  using indexOf_notin indexOf_NaN by blast

lemma splice_delete_one:
  "splice_arr (int (length ys)) 1 [] (ys @ x # zs) = ([x], ys @ zs)"
  by (simp add: splice_arr_def Let_def nat_add_distrib)

lemma splice_insert_in_range:
  "0 \<le> b \<Longrightarrow> b \<le> int (length ws) \<Longrightarrow>
     snd (splice_arr b 0 [x] ws) = take (nat b) ws @ x # drop (nat b) ws"
  by (simp add: splice_arr_def Let_def)

lemma splice_insert_one:
  "\<exists>k. snd (splice_arr b 0 [x] ws) = take k ws @ x # drop k ws"
proof -
  let ?s = "nat (if b < 0 then max (int (length ws) + b) 0 else min b (int (length ws)))"
  have "snd (splice_arr b 0 [x] ws) = take ?s ws @ x # drop ?s ws"
    by (auto simp add: splice_arr_def Let_def min_def max_def)
  then show ?thesis ..
qed

lemma remove1_first: "x \<notin> set ys \<Longrightarrow> remove1 x (ys @ x # zs) = ys @ zs"
  by (simp add: remove1_append)

text \<open>
  The first occurrence of a member other than NaN: where \<^verbatim>\<open>indexOf\<close> finds it and
  what \<^verbatim>\<open>splice(i, 1)\<close> removes there.
\<close>

lemma first_occurrence:
  assumes "ident \<in> set xs" and "ident \<noteq> NaNId"
  obtains ys zs where "xs = ys @ ident # zs" "ident \<notin> set ys"
    "indexOf xs ident = int (length ys)"
    "splice_arr (indexOf xs ident) 1 [] xs = ([ident], ys @ zs)"
    "remove1 ident xs = ys @ zs"
proof -
  from assms(1) obtain ys zs where xs: "xs = ys @ ident # zs" and ys: "ident \<notin> set ys"
    by (auto dest: split_list_first)
  have idx: "indexOf xs ident = int (length ys)"
    by (simp add: xs ys assms(2) indexOf_first)
  have "splice_arr (indexOf xs ident) 1 [] xs = ([ident], ys @ zs)"
    unfolding idx unfolding xs by (rule splice_delete_one)
  moreover have "remove1 ident xs = ys @ zs"
    by (simp add: xs remove1_first [OF ys])
  ultimately show thesis using that xs ys idx by blast
qed

lemma filter_relocate:
  "filter (\<lambda>y. y \<noteq> x) (take k ws @ x # drop k ws) = filter (\<lambda>y. y \<noteq> x) ws"
proof -
  have "filter (\<lambda>y. y \<noteq> x) (take k ws @ x # drop k ws)
        = filter (\<lambda>y. y \<noteq> x) (take k ws) @ filter (\<lambda>y. y \<noteq> x) (drop k ws)"
    by simp
  also have "\<dots> = filter (\<lambda>y. y \<noteq> x) (take k ws @ drop k ws)"
    by (simp only: filter_append)
  also have "\<dots> = filter (\<lambda>y. y \<noteq> x) ws"
    by (simp only: append_take_drop_id)
  finally show ?thesis .
qed

lemma nth_relocate: "k \<le> length ws \<Longrightarrow> (take k ws @ x # drop k ws) ! k = x"
  by (simp add: nth_append)

lemma filter_remove1_self:
  "filter (\<lambda>y. y \<noteq> x) (remove1 x xs) = filter (\<lambda>y. y \<noteq> x) xs"
  by (induction xs) auto

subsection \<open>What each operation does to the order\<close>

lemma move_noop:
  "ident \<notin> set (order (state st)) \<or> ident = NaNId \<Longrightarrow> move ident t st = (None, st)"
  by (simp add: move_def set_state_def Let_def indexOf_not_found)

lemma move_present:
  assumes "ident \<in> set (order (state st))" and "ident \<noteq> NaNId"
  shows "fst (move ident t st) = None"
    and "state (snd (move ident t st)) =
     (state st)\<lparr>order :=
        take (nat (clamp t 0 (int (length (order (state st))) - 1)))
          (remove1 ident (order (state st)))
        @ ident # drop (nat (clamp t 0 (int (length (order (state st))) - 1)))
          (remove1 ident (order (state st)))\<rparr>"
proof -
  from assms obtain ys zs where f: "order (state st) = ys @ ident # zs" "ident \<notin> set ys"
    "indexOf (order (state st)) ident = int (length ys)"
    "splice_arr (indexOf (order (state st)) ident) 1 [] (order (state st)) = ([ident], ys @ zs)"
    "remove1 ident (order (state st)) = ys @ zs"
    by (rule first_occurrence)
  have len: "int (length (order (state st))) - 1 = int (length (ys @ zs))"
    by (simp add: f(1))
  have b: "0 \<le> clamp t 0 (int (length (ys @ zs)))"
    "clamp t 0 (int (length (ys @ zs))) \<le> int (length (ys @ zs))"
    by (simp_all add: clamp_def)
  have m: "move ident t st =
      set_state (\<lambda>draft. Changed ((state st)\<lparr>order :=
        snd (splice_arr (clamp t 0 (int (length (ys @ zs)))) 0 [ident] (ys @ zs))\<rparr>)) st"
    unfolding move_def set_state_def Let_def f(4) len using f(3) by simp
  show "fst (move ident t st) = None"
    unfolding m by (simp add: set_state_def)
  show "state (snd (move ident t st)) =
     (state st)\<lparr>order :=
        take (nat (clamp t 0 (int (length (order (state st))) - 1)))
          (remove1 ident (order (state st)))
        @ ident # drop (nat (clamp t 0 (int (length (order (state st))) - 1)))
          (remove1 ident (order (state st)))\<rparr>"
    unfolding m splice_insert_in_range [OF b] f(5) len by (simp add: set_state_def)
qed

lemma moveToTop_noop:
  "indexOf (order (state st)) ident \<le> 0 \<Longrightarrow> moveToTop ident st = (None, st)"
  by (simp add: moveToTop_def set_state_def Let_def)

lemma moveToTop_state:
  "state (snd (moveToTop ident st)) =
     (state st)\<lparr>order := (if ident \<in> set (order (state st)) \<and> ident \<noteq> NaNId
                          then ident # remove1 ident (order (state st))
                          else order (state st))\<rparr>"
proof (cases "ident \<in> set (order (state st)) \<and> ident \<noteq> NaNId")
  case False
  then have "indexOf (order (state st)) ident = - 1"
    using indexOf_not_found [of ident "order (state st)"] by blast
  then show ?thesis using False by (auto simp add: moveToTop_noop)
next
  case True
  then obtain ys zs where f: "order (state st) = ys @ ident # zs" "ident \<notin> set ys"
    "indexOf (order (state st)) ident = int (length ys)"
    "splice_arr (indexOf (order (state st)) ident) 1 [] (order (state st)) = ([ident], ys @ zs)"
    "remove1 ident (order (state st)) = ys @ zs"
    using first_occurrence [of ident "order (state st)"] by blast
  show ?thesis
  proof (cases ys)
    case Nil
    with f True show ?thesis by (simp add: moveToTop_noop)
  next
    case (Cons y ys')
    then have "\<not> indexOf (order (state st)) ident \<le> 0" using f(3) by simp
    then show ?thesis using True f(4,5)
      by (simp add: moveToTop_def set_state_def Let_def)
  qed
qed

lemma moveToBottom_state:
  "state (snd (moveToBottom ident st)) =
     (state st)\<lparr>order := (if ident \<in> set (order (state st)) \<and> ident \<noteq> NaNId
                          then remove1 ident (order (state st)) @ [ident]
                          else order (state st))\<rparr>"
proof (cases "ident \<in> set (order (state st)) \<and> ident \<noteq> NaNId")
  case False
  then have "indexOf (order (state st)) ident = - 1"
    using indexOf_not_found [of ident "order (state st)"] by blast
  then show ?thesis using False by (auto simp add: moveToBottom_def set_state_def Let_def)
next
  case True
  then obtain ys zs where f: "order (state st) = ys @ ident # zs" "ident \<notin> set ys"
    "indexOf (order (state st)) ident = int (length ys)"
    "splice_arr (indexOf (order (state st)) ident) 1 [] (order (state st)) = ([ident], ys @ zs)"
    "remove1 ident (order (state st)) = ys @ zs"
    using first_occurrence [of ident "order (state st)"] by blast
  show ?thesis
  proof (cases zs)
    case Nil
    with f True show ?thesis by (simp add: moveToBottom_def set_state_def Let_def)
  next
    case (Cons z zs')
    then have "indexOf (order (state st)) ident \<noteq> - 1"
      "indexOf (order (state st)) ident \<noteq> int (length (order (state st))) - 1"
      using f(1,3) by simp_all
    then show ?thesis using True f(4,5)
      by (simp add: moveToBottom_def set_state_def Let_def)
  qed
qed

lemma moveUp_shape:
  "\<exists>k. state (snd (moveUp ident st)) = state st \<or>
       state (snd (moveUp ident st)) =
         (state st)\<lparr>order := take k (remove1 ident (order (state st)))
                              @ ident # drop k (remove1 ident (order (state st)))\<rparr>"
proof (cases "ident \<in> set (order (state st)) \<and> ident \<noteq> NaNId")
  case False
  then have "indexOf (order (state st)) ident = - 1"
    using indexOf_not_found [of ident "order (state st)"] by blast
  then show ?thesis by (simp add: moveUp_def set_state_def Let_def)
next
  case True
  then obtain ys zs where f: "order (state st) = ys @ ident # zs" "ident \<notin> set ys"
    "indexOf (order (state st)) ident = int (length ys)"
    "splice_arr (indexOf (order (state st)) ident) 1 [] (order (state st)) = ([ident], ys @ zs)"
    "remove1 ident (order (state st)) = ys @ zs"
    using first_occurrence [of ident "order (state st)"] by blast
  show ?thesis
  proof (cases "indexOf (order (state st)) ident \<le> 0")
    case True
    then show ?thesis by (simp add: moveUp_def set_state_def Let_def)
  next
    case False
    then have "state (snd (moveUp ident st)) =
       (state st)\<lparr>order :=
          snd (splice_arr (indexOf (order (state st)) ident - 1) 0 [ident] (ys @ zs))\<rparr>"
      using f(4) by (simp add: moveUp_def set_state_def Let_def)
    moreover obtain k where
      "snd (splice_arr (indexOf (order (state st)) ident - 1) 0 [ident] (ys @ zs))
         = take k (ys @ zs) @ ident # drop k (ys @ zs)"
      using splice_insert_one [of "indexOf (order (state st)) ident - 1" ident "ys @ zs"]
      by blast
    ultimately show ?thesis unfolding f(5) by auto
  qed
qed

lemma moveDown_shape:
  "\<exists>k. state (snd (moveDown ident st)) = state st \<or>
       state (snd (moveDown ident st)) =
         (state st)\<lparr>order := take k (remove1 ident (order (state st)))
                              @ ident # drop k (remove1 ident (order (state st)))\<rparr>"
proof (cases "ident \<in> set (order (state st)) \<and> ident \<noteq> NaNId")
  case False
  then have "indexOf (order (state st)) ident = - 1"
    using indexOf_not_found [of ident "order (state st)"] by blast
  then show ?thesis by (simp add: moveDown_def set_state_def Let_def)
next
  case True
  then obtain ys zs where f: "order (state st) = ys @ ident # zs" "ident \<notin> set ys"
    "indexOf (order (state st)) ident = int (length ys)"
    "splice_arr (indexOf (order (state st)) ident) 1 [] (order (state st)) = ([ident], ys @ zs)"
    "remove1 ident (order (state st)) = ys @ zs"
    using first_occurrence [of ident "order (state st)"] by blast
  show ?thesis
  proof (cases "indexOf (order (state st)) ident = - 1
      \<or> indexOf (order (state st)) ident = int (length (order (state st))) - 1")
    case True
    then show ?thesis by (simp add: moveDown_def set_state_def Let_def)
  next
    case False
    then have "state (snd (moveDown ident st)) =
       (state st)\<lparr>order :=
          snd (splice_arr (indexOf (order (state st)) ident + 1) 0 [ident] (ys @ zs))\<rparr>"
      using f(4) by (simp add: moveDown_def set_state_def Let_def)
    moreover obtain k where
      "snd (splice_arr (indexOf (order (state st)) ident + 1) 0 [ident] (ys @ zs))
         = take k (ys @ zs) @ ident # drop k (ys @ zs)"
      using splice_insert_one [of "indexOf (order (state st)) ident + 1" ident "ys @ zs"]
      by blast
    ultimately show ?thesis unfolding f(5) by auto
  qed
qed

subsection \<open>Relocation of a single element\<close>

text \<open>
  C6, as the code has it. \<^verbatim>\<open>move(id, targetIndex)\<close> raises nothing, whatever the
  order, the identifier and the integer index are. It leaves the store as it is when
  \<^verbatim>\<open>indexOf\<close> does not find \<open>id\<close>: when \<open>id\<close> is not in the order, and
  when it is NaN, which \<^verbatim>\<open>indexOf\<close> never finds even in an order that holds it. Otherwise it
  takes the first occurrence of \<open>id\<close> out and puts it at \<open>targetIndex\<close> clamped to
  \<open>[0, length - 1]\<close>: the order keeps its length; for an index within the range
  \<open>id\<close> is at that very index, for an index past the end it is at the last index, and
  for a negative index it is at index 0.
\<close>

theorem move_clamped:
  "fst (move ident t st) = None
   \<and> (ident \<notin> set (order (state st)) \<or> ident = NaNId \<longrightarrow> move ident t st = (None, st))
   \<and> (ident \<in> set (order (state st)) \<and> ident \<noteq> NaNId \<longrightarrow>
        order (state (snd (move ident t st)))
          = take (nat (if t < 0 then 0
                       else if int (length (order (state st))) - 1 < t
                       then int (length (order (state st))) - 1 else t))
              (remove1 ident (order (state st)))
            @ ident #
            drop (nat (if t < 0 then 0
                       else if int (length (order (state st))) - 1 < t
                       then int (length (order (state st))) - 1 else t))
              (remove1 ident (order (state st)))
        \<and> length (order (state (snd (move ident t st)))) = length (order (state st))
        \<and> (0 \<le> t \<and> t \<le> int (length (order (state st))) - 1 \<longrightarrow>
             order (state (snd (move ident t st))) ! nat t = ident)
        \<and> (int (length (order (state st))) - 1 < t \<longrightarrow>
             order (state (snd (move ident t st))) ! (length (order (state st)) - 1) = ident)
        \<and> (t < 0 \<longrightarrow> order (state (snd (move ident t st))) ! 0 = ident))"
proof -
  let ?xs = "order (state st)"
  let ?b = "nat (clamp t 0 (int (length ?xs) - 1))"
  let ?B = "nat (if t < 0 then 0
                 else if int (length ?xs) - 1 < t then int (length ?xs) - 1 else t)"
  let ?rest = "remove1 ident ?xs"
  let ?new = "order (state (snd (move ident t st)))"
  have none: "fst (move ident t st) = None"
  proof (cases "ident \<in> set ?xs \<and> ident \<noteq> NaNId")
    case True
    then show ?thesis by (simp add: move_present(1))
  next
    case False
    then have "move ident t st = (None, st)" by (intro move_noop) blast
    then show ?thesis by simp
  qed
  have noop: "move ident t st = (None, st)" if "ident \<notin> set ?xs \<or> ident = NaNId"
    using that by (rule move_noop)
  have present: "?new = take ?B ?rest @ ident # drop ?B ?rest
      \<and> length ?new = length ?xs
      \<and> (0 \<le> t \<and> t \<le> int (length ?xs) - 1 \<longrightarrow> ?new ! nat t = ident)
      \<and> (int (length ?xs) - 1 < t \<longrightarrow> ?new ! (length ?xs - 1) = ident)
      \<and> (t < 0 \<longrightarrow> ?new ! 0 = ident)"
    if mem: "ident \<in> set ?xs" and nn: "ident \<noteq> NaNId"
  proof -
    have pos: "0 < length ?xs" using mem by (cases ?xs) auto
    have bB: "?b = ?B" using pos by (simp add: clamp_def)
    have rest: "length ?rest = length ?xs - 1"
      using mem by (simp add: length_remove1)
    have b: "?B \<le> length ?rest"
      using pos unfolding rest by auto
    have new: "?new = take ?B ?rest @ ident # drop ?B ?rest"
      using move_present(2) [OF mem nn, of t] unfolding bB by simp
    have len: "length ?new = length ?xs"
    proof -
      have "length ?new = Suc (length (take ?B ?rest @ drop ?B ?rest))"
        unfolding new by (simp del: append_take_drop_id)
      also have "\<dots> = Suc (length ?rest)"
        by (simp only: append_take_drop_id)
      finally show ?thesis using rest pos by arith
    qed
    have at_B: "?new ! ?B = ident"
      unfolding new using b by (rule nth_relocate)
    have in_range: "?new ! nat t = ident" if "0 \<le> t \<and> t \<le> int (length ?xs) - 1"
    proof -
      have "?B = nat t" using that by auto
      then show ?thesis using at_B by simp
    qed
    have past_end: "?new ! (length ?xs - 1) = ident" if "int (length ?xs) - 1 < t"
    proof -
      have "?B = length ?xs - 1" using that pos by auto
      then show ?thesis using at_B by simp
    qed
    have negative: "?new ! 0 = ident" if "t < 0"
    proof -
      have "?B = 0" using that by simp
      then show ?thesis using at_B by simp
    qed
    show ?thesis using new len in_range past_end negative by blast
  qed
  show ?thesis using none noop present by blast
qed

theorem move_clamped_witness:
  "fst (move (StrId ''x'') 1 xyz_store) = None
   \<and> StrId ''w'' \<notin> set (order (state xyz_store))
   \<and> move (StrId ''w'') 5 xyz_store = (None, xyz_store)
   \<and> move NaNId 1 nan_x_store = (None, nan_x_store)
   \<and> StrId ''x'' \<in> set (order (state xyz_store)) \<and> StrId ''x'' \<noteq> NaNId
   \<and> (0::int) \<le> 1 \<and> 1 \<le> int (length (order (state xyz_store))) - 1
   \<and> order (state (snd (move (StrId ''x'') 1 xyz_store)))
       = [StrId ''y'', StrId ''x'', StrId ''z'']
   \<and> order (state (snd (move (StrId ''x'') 1 xyz_store))) ! nat 1 = StrId ''x''
   \<and> int (length (order (state xyz_store))) - 1 < 7
   \<and> order (state (snd (move (StrId ''x'') 7 xyz_store)))
       = [StrId ''y'', StrId ''z'', StrId ''x'']
   \<and> order (state (snd (move (StrId ''x'') 7 xyz_store))) ! 2 = StrId ''x''
   \<and> StrId ''z'' \<in> set (order (state xyz_store)) \<and> StrId ''z'' \<noteq> NaNId
   \<and> (- 3 :: int) < 0
   \<and> order (state (snd (move (StrId ''z'') (- 3) xyz_store)))
       = [StrId ''z'', StrId ''x'', StrId ''y'']
   \<and> order (state (snd (move (StrId ''z'') (- 3) xyz_store))) ! 0 = StrId ''z''"
  using move_clamped [of "StrId ''w''" 5 xyz_store]
    move_clamped [of NaNId 1 nan_x_store]
    move_clamped [of "StrId ''x''" 1 xyz_store]
    move_clamped [of "StrId ''x''" 7 xyz_store]
    move_clamped [of "StrId ''z''" "- 3" xyz_store]
  by (simp add: xyz_store_def)

text \<open>
  The claim that an identifier present in the order is relocated fails for NaN: in the
  order \<open>[NaN, "x"]\<close>, \<^verbatim>\<open>move(NaN, 1)\<close> changes nothing, and index 1 still holds
  \<open>"x"\<close>.
\<close>

theorem move_nan_counterexample:
  "NaNId \<in> set (order (state nan_x_store))
   \<and> move NaNId 1 nan_x_store = (None, nan_x_store)
   \<and> order (state (snd (move NaNId 1 nan_x_store))) = [NaNId, StrId ''x'']
   \<and> order (state (snd (move NaNId 1 nan_x_store))) ! 1 \<noteq> NaNId"
  by (simp add: nan_x_store_def move_def set_state_def Let_def strict_equal_def)

text \<open>
  C7. For each of \<^verbatim>\<open>move\<close>, \<^verbatim>\<open>moveToTop\<close>, \<^verbatim>\<open>moveToBottom\<close>,
  \<^verbatim>\<open>moveUp\<close> and \<^verbatim>\<open>moveDown\<close>, every order and every identifier: the elements
  other than the identifier are, after the call, the same sequence as before it.
\<close>

theorem reorder_keeps_relative_order:
  "filter (\<lambda>x. x \<noteq> ident) (order (state (snd (move ident t st))))
     = filter (\<lambda>x. x \<noteq> ident) (order (state st))
   \<and> filter (\<lambda>x. x \<noteq> ident) (order (state (snd (moveToTop ident st))))
     = filter (\<lambda>x. x \<noteq> ident) (order (state st))
   \<and> filter (\<lambda>x. x \<noteq> ident) (order (state (snd (moveToBottom ident st))))
     = filter (\<lambda>x. x \<noteq> ident) (order (state st))
   \<and> filter (\<lambda>x. x \<noteq> ident) (order (state (snd (moveUp ident st))))
     = filter (\<lambda>x. x \<noteq> ident) (order (state st))
   \<and> filter (\<lambda>x. x \<noteq> ident) (order (state (snd (moveDown ident st))))
     = filter (\<lambda>x. x \<noteq> ident) (order (state st))"
proof (intro conjI)
  let ?rest = "remove1 ident (order (state st))"
  show "filter (\<lambda>x. x \<noteq> ident) (order (state (snd (move ident t st))))
      = filter (\<lambda>x. x \<noteq> ident) (order (state st))"
  proof (cases "ident \<in> set (order (state st)) \<and> ident \<noteq> NaNId")
    case True
    let ?b = "nat (clamp t 0 (int (length (order (state st))) - 1))"
    have "order (state (snd (move ident t st))) = take ?b ?rest @ ident # drop ?b ?rest"
      using True by (simp add: move_present(2))
    then have "filter (\<lambda>x. x \<noteq> ident) (order (state (snd (move ident t st))))
        = filter (\<lambda>x. x \<noteq> ident) ?rest"
      by (simp only: filter_relocate)
    then show ?thesis by (simp only: filter_remove1_self)
  next
    case False
    then have "move ident t st = (None, st)" by (intro move_noop) blast
    then show ?thesis by simp
  qed
  show "filter (\<lambda>x. x \<noteq> ident) (order (state (snd (moveToTop ident st))))
      = filter (\<lambda>x. x \<noteq> ident) (order (state st))"
    by (simp add: moveToTop_state filter_remove1_self)
  show "filter (\<lambda>x. x \<noteq> ident) (order (state (snd (moveToBottom ident st))))
      = filter (\<lambda>x. x \<noteq> ident) (order (state st))"
    by (simp add: moveToBottom_state filter_remove1_self)
  show "filter (\<lambda>x. x \<noteq> ident) (order (state (snd (moveUp ident st))))
      = filter (\<lambda>x. x \<noteq> ident) (order (state st))"
    using moveUp_shape [of ident st] filter_relocate [of ident _ ?rest]
    by (auto simp: filter_remove1_self)
  show "filter (\<lambda>x. x \<noteq> ident) (order (state (snd (moveDown ident st))))
      = filter (\<lambda>x. x \<noteq> ident) (order (state st))"
    using moveDown_shape [of ident st] filter_relocate [of ident _ ?rest]
    by (auto simp: filter_remove1_self)
qed



end
